theory Spec2Isabelle
  imports Main "HOL-Library.Sublist"
begin

section \<open>The orchestration graph: dagster_pipeline/jobs/telegram_pipeline.py\<close>

text \<open>
  The four ops of the job. Each op checks that a path exists, runs one subprocess with
  \<^verbatim>\<open>subprocess.run(..., capture_output=True, text=True, env=...)\<close> and returns a
  dict, or raises. Everything the op reads from outside (the file system, the child
  process, the clock) is a field of \<open>world\<close>.
\<close>

datatype stage = Scrape | Load | Transform | Enrich

datatype py_exception =
    FileNotFoundError string
  | Exception string
  | TimeoutExpired
  | OtherError string
  | ConnectionError string
  | CancelledError
  | KeyboardInterrupt

text \<open>
  \<^verbatim>\<open>isinstance(e, Exception)\<close>: what a clause \<^verbatim>\<open>except Exception\<close> catches.
  \<^verbatim>\<open>asyncio.CancelledError\<close> and \<^verbatim>\<open>KeyboardInterrupt\<close> derive from \<^verbatim>\<open>BaseException\<close> only.
\<close>

fun is_Exception :: "py_exception \<Rightarrow> bool" where
  "is_Exception CancelledError = False"
| "is_Exception KeyboardInterrupt = False"
| "is_Exception e = True"

record completed_process =
  returncode :: int
  stderr :: string
  duration :: nat

text \<open>
  What the child process of an op does: it exits after \<open>duration\<close> seconds with a return
  code and captured stderr, or the call itself raises before a child runs (the
  interpreter is not found, a resource value is unusable), or the child never exits.
\<close>

datatype proc = Exits completed_process | CallRaises string | Hangs

datatype 'a outcome = Returns 'a | Raised py_exception | NoReturn

text \<open>
  \<^verbatim>\<open>subprocess.run(args, timeout=None)\<close>: with no timeout the call waits for the child;
  with a timeout of \<open>t\<close> seconds a child that has not exited by then is killed and
  \<^verbatim>\<open>TimeoutExpired\<close> is raised.
\<close>

fun subprocess_run :: "proc \<Rightarrow> nat option \<Rightarrow> completed_process outcome" where
  "subprocess_run (CallRaises m) timeout = Raised (OtherError m)"
| "subprocess_run (Exits cp) None = Returns cp"
| "subprocess_run (Exits cp) (Some t) = (if t < duration cp then Raised TimeoutExpired else Returns cp)"
| "subprocess_run Hangs None = NoReturn"
| "subprocess_run Hangs (Some t) = Raised TimeoutExpired"

record world =
  script_path :: "stage \<Rightarrow> string"
  path_exists :: "stage \<Rightarrow> bool"
  child :: "stage \<Rightarrow> proc"
  utcnow :: "stage \<Rightarrow> string"

text \<open>The dict an op returns, with its keys in the order of the literal.\<close>

type_synonym payload = "(string \<times> string) list"

definition scrape_telegram_data :: "world \<Rightarrow> payload outcome" where
  "scrape_telegram_data w =
     (if \<not> path_exists w Scrape
      then Raised (FileNotFoundError (''Scraping script not found at '' @ script_path w Scrape))
      else case subprocess_run (child w Scrape) None of
             Raised e \<Rightarrow> Raised e
           | NoReturn \<Rightarrow> NoReturn
           | Returns result \<Rightarrow>
               if returncode result \<noteq> 0
               then Raised (Exception (''Scraping failed: '' @ stderr result))
               else Returns [(''status'', ''success''), (''timestamp'', utcnow w Scrape)])"

definition load_raw_to_postgres :: "world \<Rightarrow> payload \<Rightarrow> payload outcome" where
  "load_raw_to_postgres w previous_result =
     (if \<not> path_exists w Load
      then Raised (FileNotFoundError (''Load script not found at '' @ script_path w Load))
      else case subprocess_run (child w Load) None of
             Raised e \<Rightarrow> Raised e
           | NoReturn \<Rightarrow> NoReturn
           | Returns result \<Rightarrow>
               if returncode result \<noteq> 0
               then Raised (Exception (''Loading to PostgreSQL failed: '' @ stderr result))
               else Returns [(''status'', ''success''), (''timestamp'', utcnow w Load)])"

definition run_dbt_transformations :: "world \<Rightarrow> payload \<Rightarrow> payload outcome" where
  "run_dbt_transformations w previous_result =
     (if \<not> path_exists w Transform
      then Raised (FileNotFoundError (''dbt project not found at '' @ script_path w Transform))
      else case subprocess_run (child w Transform) None of
             Raised e \<Rightarrow> Raised e
           | NoReturn \<Rightarrow> NoReturn
           | Returns result \<Rightarrow>
               if returncode result \<noteq> 0
               then Raised (Exception (''dbt transformations failed: '' @ stderr result))
               else Returns [(''status'', ''success''), (''timestamp'', utcnow w Transform)])"

definition run_yolo_enrichment :: "world \<Rightarrow> payload \<Rightarrow> payload outcome" where
  "run_yolo_enrichment w previous_result =
     (if \<not> path_exists w Enrich
      then Returns [(''status'', ''skipped''), (''reason'', ''YOLO script not found''),
                    (''timestamp'', utcnow w Enrich)]
      else case subprocess_run (child w Enrich) None of
             Raised e \<Rightarrow> Raised e
           | NoReturn \<Rightarrow> NoReturn
           | Returns result \<Rightarrow>
               if returncode result \<noteq> 0
               then Raised (Exception (''YOLO enrichment failed: '' @ stderr result))
               else Returns [(''status'', ''success''), (''timestamp'', utcnow w Enrich)])"

text \<open>
  The graph wires the ops in a chain: each op's argument is the value the op before it
  returned. A run of the job executes a step once its upstream step has returned; when a
  step raises, the steps downstream of it are not executed and the run fails. The record
  of a run is the list of the steps that were started, each with the payload it received
  and how it ended.
\<close>

record step_event =
  step :: stage
  step_input :: "payload option"
  step_outcome :: "payload outcome"

definition telegram_pipeline :: "world \<Rightarrow> step_event list" where
  "telegram_pipeline w =
     (let scraped = scrape_telegram_data w in
      \<lparr>step = Scrape, step_input = None, step_outcome = scraped\<rparr> #
      (case scraped of
         Returns p1 \<Rightarrow>
           (let loaded = load_raw_to_postgres w p1 in
            \<lparr>step = Load, step_input = Some p1, step_outcome = loaded\<rparr> #
            (case loaded of
               Returns p2 \<Rightarrow>
                 (let transformed = run_dbt_transformations w p2 in
                  \<lparr>step = Transform, step_input = Some p2, step_outcome = transformed\<rparr> #
                  (case transformed of
                     Returns p3 \<Rightarrow>
                       [\<lparr>step = Enrich, step_input = Some p3,
                         step_outcome = run_yolo_enrichment w p3\<rparr>]
                   | _ \<Rightarrow> []))
             | _ \<Rightarrow> []))
       | _ \<Rightarrow> []))"

datatype run_status = RunSuccess | RunFailure | RunStarted

text \<open>
  The status of a run: a failure as soon as a step raised, still started while a step has
  not returned, a success when every step returned.
\<close>

fun is_raised :: "'a outcome \<Rightarrow> bool" where
  "is_raised (Raised e) = True"
| "is_raised _ = False"

fun is_noreturn :: "'a outcome \<Rightarrow> bool" where
  "is_noreturn NoReturn = True"
| "is_noreturn _ = False"

definition run_status_of :: "step_event list \<Rightarrow> run_status" where
  "run_status_of evs =
     (if list_ex (\<lambda>e. is_raised (step_outcome e)) evs then RunFailure
      else if list_ex (\<lambda>e. is_noreturn (step_outcome e)) evs then RunStarted
      else RunSuccess)"

definition telegram_job :: "world \<Rightarrow> run_status \<times> step_event list" where
  "telegram_job w = (let evs = telegram_pipeline w in (run_status_of evs, evs))"

section \<open>The read API: src/crud.py, src/main.py, src/schemas.py\<close>

text \<open>
  A row of \<^verbatim>\<open>telegram_schema.fct_messages\<close>, with the columns the two queries read.
  A timestamp is a number of seconds since the epoch; \<open>None\<close> is SQL's NULL.
\<close>

record fct_message =
  message_id :: int
  channel_id :: string
  message_text :: "string option"
  media_date :: "int option"
  has_image :: "bool option"

text \<open>
  The exception \<^verbatim>\<open>db.execute\<close> raises when the database fails: what \<^verbatim>\<open>str(e)\<close> gives,
  and the traceback the exception object carries.
\<close>

record db_exception =
  exc_str :: string
  exc_traceback :: string

record session =
  fct_messages :: "fct_message list"
  execute_error :: "db_exception option"

text \<open>Stable insertion sort by a comparison, for the queries' ORDER BY.\<close>

fun insort_by :: "('a \<Rightarrow> 'a \<Rightarrow> bool) \<Rightarrow> 'a \<Rightarrow> 'a list \<Rightarrow> 'a list" where
  "insort_by le x [] = [x]"
| "insort_by le x (y # ys) = (if le x y then x # y # ys else y # insort_by le x ys)"

definition sort_by :: "('a \<Rightarrow> 'a \<Rightarrow> bool) \<Rightarrow> 'a list \<Rightarrow> 'a list" where
  "sort_by le xs = foldr (insort_by le) xs []"

text \<open>Ascending order puts NULL last, descending order puts it first.\<close>

fun asc_nulls_last :: "int option \<Rightarrow> int option \<Rightarrow> bool" where
  "asc_nulls_last (Some a) (Some b) = (a \<le> b)"
| "asc_nulls_last (Some a) None = True"
| "asc_nulls_last None (Some b) = False"
| "asc_nulls_last None None = True"

definition desc_nulls_first :: "int option \<Rightarrow> int option \<Rightarrow> bool" where
  "desc_nulls_first a b = asc_nulls_last b a"

text \<open>\<^verbatim>\<open>DATE(media_date)\<close>: the day of a timestamp.\<close>

definition DATE :: "int option \<Rightarrow> int option" where
  "DATE t = map_option (\<lambda>s. s div 86400) t"

record channel_activity =
  date :: "int option"
  message_count :: int

definition get_channel_activity :: "session \<Rightarrow> string \<Rightarrow> db_exception + channel_activity list" where
  "get_channel_activity db channel =
     (case execute_error db of
        Some e \<Rightarrow> Inl e
      | None \<Rightarrow>
          (let rows = filter (\<lambda>m. channel_id m = channel) (fct_messages db);
               dates = map (\<lambda>m. DATE (media_date m)) rows;
               groups = sort_by asc_nulls_last (remdups dates)
           in Inr (map (\<lambda>d. \<lparr>date = d, message_count = int (count_list dates d)\<rparr>)
                     (take 10 groups))))"

subsection \<open>ILIKE\<close>

text \<open>
  Letter case is folded on the ASCII letters. A pattern is read left to right: a
  backslash makes the next character literal, \<open>%\<close> stands for any run of characters,
  \<open>_\<close> for any one character. A pattern that ends in a lone backslash is an error.
\<close>

definition to_lower :: "char \<Rightarrow> char" where
  "to_lower c =
     (case map_of (zip ''ABCDEFGHIJKLMNOPQRSTUVWXYZ'' ''abcdefghijklmnopqrstuvwxyz'') c of
        Some l \<Rightarrow> l
      | None \<Rightarrow> c)"

datatype pat_token = AnySeq | AnyOne | Lit char

fun like_tokens :: "string \<Rightarrow> pat_token list option" where
  "like_tokens [] = Some []"
| "like_tokens (c # cs) =
     (if c = CHR 0x5C then
        (case cs of
           [] \<Rightarrow> None
         | d # ds \<Rightarrow> map_option ((#) (Lit d)) (like_tokens ds))
      else if c = CHR ''%'' then map_option ((#) AnySeq) (like_tokens cs)
      else if c = CHR ''_'' then map_option ((#) AnyOne) (like_tokens cs)
      else map_option ((#) (Lit c)) (like_tokens cs))"

fun like_match :: "pat_token list \<Rightarrow> string \<Rightarrow> bool" where
  "like_match [] s = (s = [])"
| "like_match (Lit c # ps) [] = False"
| "like_match (Lit c # ps) (x # xs) = (x = c \<and> like_match ps xs)"
| "like_match (AnyOne # ps) [] = False"
| "like_match (AnyOne # ps) (x # xs) = like_match ps xs"
| "like_match (AnySeq # ps) [] = like_match ps []"
| "like_match (AnySeq # ps) (x # xs) = (like_match ps (x # xs) \<or> like_match (AnySeq # ps) xs)"

definition ILIKE :: "string \<Rightarrow> string \<Rightarrow> bool option" where
  "ILIKE s pattern =
     map_option (\<lambda>ps. like_match ps (map to_lower s)) (like_tokens (map to_lower pattern))"

text \<open>The WHERE clause of the search query, for the bound parameter \<open>%query%\<close>.\<close>

definition search_pattern :: "string \<Rightarrow> string" where
  "search_pattern query = ''%'' @ query @ ''%''"

definition matches :: "string \<Rightarrow> fct_message \<Rightarrow> bool" where
  "matches query m =
     (case message_text m of
        None \<Rightarrow> False
      | Some s \<Rightarrow> ILIKE s (search_pattern query) = Some True)"

definition get_messages :: "session \<Rightarrow> string \<Rightarrow> db_exception + fct_message list" where
  "get_messages db query =
     (case execute_error db of
        Some e \<Rightarrow> Inl e
      | None \<Rightarrow>
          Inr (take 50 (sort_by (\<lambda>a b. desc_nulls_first (media_date a) (media_date b))
                          (filter (matches query) (fct_messages db)))))"


subsection \<open>The handlers of main.py\<close>

definition channel_map :: "string \<rightharpoonup> string" where
  "channel_map =
     map_of [(''lobelia4cosmetics'', ''9c8e1e57054ce9826cb986f55b25016d''),
             (''CheMed123'', ''13d619c52e5db90ef6a786b69ba3c978''),
             (''tikvahpharma'', ''f6e7cc642365e9c68c2066ff71d8de76'')]"

text \<open>
  What a handler raises: an \<^verbatim>\<open>HTTPException\<close> with a status code and a detail, the
  database's exception passed through, or the framework's error for a return value that
  does not fit the declared \<^verbatim>\<open>response_model\<close>.
\<close>

datatype api_exception =
    HTTPException nat string
  | DBException db_exception
  | ResponseValidationError

text \<open>\<^verbatim>\<open>ChannelActivity.date\<close> is a required date: a NULL date does not validate.\<close>

definition valid_activity :: "channel_activity list \<Rightarrow> bool" where
  "valid_activity rows = list_all (\<lambda>a. date a \<noteq> None) rows"

definition get_activity :: "string \<Rightarrow> session \<Rightarrow> api_exception + channel_activity list" where
  "get_activity channel_name db =
     (case channel_map channel_name of
        None \<Rightarrow> Inl (HTTPException 404 ''Channel not found'')
      | Some channel \<Rightarrow>
          if channel = [] then Inl (HTTPException 404 ''Channel not found'')
          else (case get_channel_activity db channel of
                  Inl e \<Rightarrow> Inl (DBException e)
                | Inr rows \<Rightarrow> if valid_activity rows then Inr rows else Inl ResponseValidationError))"

record message_search_result =
  success :: bool
  count :: int
  results :: "fct_message list"
  query :: string

definition effective_limit :: "int \<Rightarrow> int" where
  "effective_limit limit = min (max 1 limit) 100"

text \<open>
  Python's \<^verbatim>\<open>xs[i:j]\<close>: a negative bound counts from the end, and both bounds are
  clipped to the list.
\<close>

definition py_slice :: "'a list \<Rightarrow> int \<Rightarrow> int \<Rightarrow> 'a list" where
  "py_slice xs i j =
     (let n = int (length xs);
          lo = (if i < 0 then max (n + i) 0 else min i n);
          hi = (if j < 0 then max (n + j) 0 else min j n)
      in if lo < hi then take (nat (hi - lo)) (drop (nat lo) xs) else [])"

definition search_messages ::
  "session \<Rightarrow> string \<Rightarrow> int \<Rightarrow> int \<Rightarrow> api_exception + message_search_result" where
  "search_messages db q limit offset =
     (let limit = effective_limit limit in
      case get_messages db q of
        Inl e \<Rightarrow> Inl (HTTPException 500 (''Error searching messages: '' @ exc_str e))
      | Inr rows \<Rightarrow>
          Inr \<lparr>success = True, count = int (length rows),
               results = py_slice rows offset (offset + limit), query = q\<rparr>)"

text \<open>
  The response the framework sends: the returned value as JSON with status 200, an
  \<^verbatim>\<open>HTTPException\<close> as its status code with \<^verbatim>\<open>{"detail": ...}\<close>, any other exception as
  the plain text \<^verbatim>\<open>Internal Server Error\<close> with status 500 (the app is created with
  \<^verbatim>\<open>FastAPI()\<close>, debug off).
\<close>

datatype 'a http_body = JSON 'a | Detail string | PlainText string

record 'a http_response =
  status_code :: nat
  body :: "'a http_body"

fun respond :: "api_exception + 'a \<Rightarrow> 'a http_response" where
  "respond (Inr v) = \<lparr>status_code = 200, body = JSON v\<rparr>"
| "respond (Inl (HTTPException s d)) = \<lparr>status_code = s, body = Detail d\<rparr>"
| "respond (Inl (DBException e)) = \<lparr>status_code = 500, body = PlainText ''Internal Server Error''\<rparr>"
| "respond (Inl ResponseValidationError) =
     \<lparr>status_code = 500, body = PlainText ''Internal Server Error''\<rparr>"

section \<open>Connecting to the platform: scripts/services/telegram_service.py\<close>

text \<open>
  What one pass through the body of the retry loop of \<^verbatim>\<open>TelegramService.connect\<close> meets:
  a call raises; the client is already connected; the client connects and the user is
  authorised; the client connects, the user is not authorised and a code is requested.
\<close>

datatype attempt_outcome =
    AttemptRaises py_exception
  | ClientConnected
  | Authorized
  | NeedsCode

record connect_env =
  client_connected_on_entry :: bool
  attempt_outcome_at :: "nat \<Rightarrow> attempt_outcome"

text \<open>
  The service's \<^verbatim>\<open>_is_connected\<close> flag, the local \<^verbatim>\<open>retry_delay\<close> and the arguments of
  the calls of \<^verbatim>\<open>asyncio.sleep\<close> so far, oldest first.
\<close>

record connect_state =
  is_connected :: bool
  retry_delay :: nat
  slept :: "nat list"

text \<open>
  The loop \<^verbatim>\<open>for attempt in range(max_retries)\<close>, over the attempts still to make. The
  clause \<^verbatim>\<open>except Exception\<close> catches what \<open>is_Exception\<close> accepts; any other exception
  leaves \<open>connect\<close> at once, with no sleep and the flag as it was.
\<close>

fun connect_loop ::
  "connect_env \<Rightarrow> nat \<Rightarrow> nat list \<Rightarrow> connect_state \<Rightarrow> unit outcome \<times> connect_state" where
  "connect_loop env max_retries [] st = (Returns (), st)"
| "connect_loop env max_retries (attempt # rest) st =
     (case attempt_outcome_at env attempt of
        ClientConnected \<Rightarrow> (Returns (), st\<lparr>is_connected := True\<rparr>)
      | Authorized \<Rightarrow> (Returns (), st\<lparr>is_connected := True\<rparr>)
      | NeedsCode \<Rightarrow> (Returns (), st)
      | AttemptRaises e \<Rightarrow>
          if \<not> is_Exception e then (Raised e, st)
          else
            (let st = st\<lparr>is_connected := False\<rparr> in
             if attempt < max_retries - 1
             then connect_loop env max_retries rest
                    (st\<lparr>slept := slept st @ [retry_delay st], retry_delay := retry_delay st * 2\<rparr>)
             else (Raised e, st)))"

definition connect :: "connect_env \<Rightarrow> connect_state \<Rightarrow> unit outcome \<times> connect_state" where
  "connect env st =
     (let max_retries = 3; st = st\<lparr>retry_delay := 5\<rparr> in
      if is_connected st \<and> client_connected_on_entry env then (Returns (), st)
      else connect_loop env max_retries [0..<max_retries] st)"

section \<open>Concrete inputs\<close>

text \<open>A world where every path exists and only the scraping child exits with code 1.\<close>

definition world_scrape_exit1 :: world where
  "world_scrape_exit1 =
     \<lparr>script_path = (\<lambda>s. ''/app/scripts/x.py''),
      path_exists = (\<lambda>s. True),
      child = (\<lambda>s. Exits \<lparr>returncode = (if s = Scrape then 1 else 0),
                            stderr = ''boom'', duration = 2\<rparr>),
      utcnow = (\<lambda>s. ''2024-01-01T00:00:00'')\<rparr>"

text \<open>A world where every child exits with code 0, the scraping child after 100000 seconds.\<close>

definition world_slow_scrape :: world where
  "world_slow_scrape =
     \<lparr>script_path = (\<lambda>s. ''/app/scripts/x.py''),
      path_exists = (\<lambda>s. True),
      child = (\<lambda>s. Exits \<lparr>returncode = 0, stderr = [], duration = 100000\<rparr>),
      utcnow = (\<lambda>s. ''2024-01-01T00:00:00'')\<rparr>"

text \<open>A world where the object-detection script is missing and every child exits with code 0.\<close>

definition world_no_yolo :: world where
  "world_no_yolo =
     \<lparr>script_path = (\<lambda>s. ''/app/scripts/x.py''),
      path_exists = (\<lambda>s. s \<noteq> Enrich),
      child = (\<lambda>s. Exits \<lparr>returncode = 0, stderr = [], duration = 2\<rparr>),
      utcnow = (\<lambda>s. ''2024-01-01T00:00:00'')\<rparr>"

text \<open>A database with no failure and twelve messages of the channel CheMed123, one a day.\<close>

definition db_twelve_days :: session where
  "db_twelve_days =
     \<lparr>fct_messages =
        map (\<lambda>i. \<lparr>message_id = i, channel_id = ''13d619c52e5db90ef6a786b69ba3c978'',
                  message_text = Some ''covid'', media_date = Some (i * 86400),
                  has_image = None\<rparr>) [0, 1, 2, 3, 4, 5, 6, 7, 8, 9, 10, 11],
      execute_error = None\<rparr>"



text \<open>A message whose text is \<open>abc\<close>.\<close>

definition abc_message :: fct_message where
  "abc_message = \<lparr>message_id = 2, channel_id = ''13d619c52e5db90ef6a786b69ba3c978'',
                  message_text = Some ''abc'', media_date = Some 0, has_image = None\<rparr>"

text \<open>A query with none of the characters that ILIKE reads specially.\<close>

definition plain_query :: "string \<Rightarrow> bool" where
  "plain_query q = (CHR ''%'' \<notin> set q \<and> CHR ''_'' \<notin> set q \<and> CHR 0x5C \<notin> set q)"

text \<open>
  A platform that refuses every connection attempt, one that accepts the second attempt,
  and a service that has not connected yet.
\<close>

definition env_refused :: connect_env where
  "env_refused = \<lparr>client_connected_on_entry = False,
                  attempt_outcome_at = (\<lambda>n. AttemptRaises (ConnectionError ''refused''))\<rparr>"

definition env_second_try :: connect_env where
  "env_second_try = \<lparr>client_connected_on_entry = False,
                     attempt_outcome_at = (\<lambda>n. if n = 0 then AttemptRaises (ConnectionError ''refused'')
                                                else Authorized)\<rparr>"

definition fresh_service :: connect_state where
  "fresh_service = \<lparr>is_connected = False, retry_delay = 0, slept = []\<rparr>"

text \<open>A platform whose first connection attempt is cancelled.\<close>

definition env_cancelled :: connect_env where
  "env_cancelled = \<lparr>client_connected_on_entry = False,
                    attempt_outcome_at = (\<lambda>n. AttemptRaises CancelledError)\<rparr>"

text \<open>
  Whether a pass through the loop body raises, and whether what it raises is an error
  that the \<^verbatim>\<open>except Exception\<close> clause catches and retries.
\<close>

fun raises :: "attempt_outcome \<Rightarrow> bool" where
  "raises (AttemptRaises e) = True"
| "raises _ = False"

fun retryable :: "attempt_outcome \<Rightarrow> bool" where
  "retryable (AttemptRaises e) = is_Exception e"
| "retryable _ = False"

section \<open>Failure of the first step\<close>

text \<open>
  C1. When the scrape op raises (its script is missing, the child process cannot be
  started, or it exits with a non-zero return code; no op is retried), the run fails, the
  only step on record is the scrape step with the exception it raised, and the load,
  transform and enrich steps do not occur in the record.
\<close>

theorem scrape_failure_halts_run:
  assumes "scrape_telegram_data w = Raised e"
  shows "telegram_job w =
           (RunFailure, [\<lparr>step = Scrape, step_input = None, step_outcome = Raised e\<rparr>])
         \<and> Load \<notin> step ` set (snd (telegram_job w))
         \<and> Transform \<notin> step ` set (snd (telegram_job w))
         \<and> Enrich \<notin> step ` set (snd (telegram_job w))"
  using assms by (simp add: telegram_job_def telegram_pipeline_def run_status_of_def)

theorem scrape_failure_halts_run_witness:
  "scrape_telegram_data world_scrape_exit1 = Raised (Exception ''Scraping failed: boom'')
   \<and> telegram_job world_scrape_exit1 =
       (RunFailure, [\<lparr>step = Scrape, step_input = None,
                      step_outcome = Raised (Exception ''Scraping failed: boom'')\<rparr>])"
proof -
  have h: "scrape_telegram_data world_scrape_exit1 = Raised (Exception ''Scraping failed: boom'')"
    by (simp add: scrape_telegram_data_def world_scrape_exit1_def)
  from scrape_failure_halts_run [OF h] h show ?thesis by simp
qed

section \<open>Timeouts\<close>

lemma subprocess_run_no_timeout: "subprocess_run c None \<noteq> Raised TimeoutExpired"
  by (cases c) simp_all

text \<open>
  C3 (as the code has it). No op passes a timeout to \<^verbatim>\<open>subprocess.run\<close>: whatever the
  child does and however long it takes, no op of the job ends with \<^verbatim>\<open>TimeoutExpired\<close>.
  An execution is never cut short for exceeding a budget and never reported as a timeout.
\<close>

theorem no_stage_timeout:
  "scrape_telegram_data w \<noteq> Raised TimeoutExpired
   \<and> load_raw_to_postgres w p \<noteq> Raised TimeoutExpired
   \<and> run_dbt_transformations w p \<noteq> Raised TimeoutExpired
   \<and> run_yolo_enrichment w p \<noteq> Raised TimeoutExpired"
  using subprocess_run_no_timeout [of "child w Scrape"] subprocess_run_no_timeout [of "child w Load"]
    subprocess_run_no_timeout [of "child w Transform"] subprocess_run_no_timeout [of "child w Enrich"]
  by (auto simp: scrape_telegram_data_def load_raw_to_postgres_def run_dbt_transformations_def
      run_yolo_enrichment_def split: outcome.splits)

text \<open>
  An op waits for its child however long it runs: when the script exists and the child
  exits, the outcome is decided by the return code alone, whatever the duration.
\<close>

lemma scrape_waits_for_child:
  "path_exists w Scrape \<Longrightarrow> child w Scrape = Exits cp \<Longrightarrow>
     scrape_telegram_data w =
       (if returncode cp \<noteq> 0 then Raised (Exception (''Scraping failed: '' @ stderr cp))
        else Returns [(''status'', ''success''), (''timestamp'', utcnow w Scrape)])"
  by (simp add: scrape_telegram_data_def)

lemma enrich_waits_for_child:
  "path_exists w Enrich \<Longrightarrow> child w Enrich = Exits cp \<Longrightarrow>
     run_yolo_enrichment w p =
       (if returncode cp \<noteq> 0 then Raised (Exception (''YOLO enrichment failed: '' @ stderr cp))
        else Returns [(''status'', ''success''), (''timestamp'', utcnow w Enrich)])"
  by (simp add: run_yolo_enrichment_def)

text \<open>
  The claim as stated fails: a scraping child that exits with code 0 after 100000 seconds
  would be killed by a timeout of one hour, had one been passed; the op waits for it and
  returns success.
\<close>

theorem stage_timeout_counterexample:
  "subprocess_run (child world_slow_scrape Scrape) (Some 3600) = Raised TimeoutExpired
   \<and> scrape_telegram_data world_slow_scrape =
       Returns [(''status'', ''success''), (''timestamp'', ''2024-01-01T00:00:00'')]"
  by (simp add: world_slow_scrape_def scrape_telegram_data_def)

section \<open>The optional enrichment step\<close>

text \<open>
  C5. When the object-detection script is missing and the scrape, load and transform
  steps returned, the enrich step returns a payload whose status is \<open>skipped\<close> and that
  has no \<open>error\<close> entry, and the run succeeds with all four steps on record.
\<close>

theorem missing_yolo_script_skips:
  assumes "\<not> path_exists w Enrich"
    and "scrape_telegram_data w = Returns p1"
    and "load_raw_to_postgres w p1 = Returns p2"
    and "run_dbt_transformations w p2 = Returns p3"
  shows "\<exists>p. telegram_job w =
           (RunSuccess,
            [\<lparr>step = Scrape, step_input = None, step_outcome = Returns p1\<rparr>,
             \<lparr>step = Load, step_input = Some p1, step_outcome = Returns p2\<rparr>,
             \<lparr>step = Transform, step_input = Some p2, step_outcome = Returns p3\<rparr>,
             \<lparr>step = Enrich, step_input = Some p3, step_outcome = Returns p\<rparr>])
         \<and> map_of p ''status'' = Some ''skipped''
         \<and> map_of p ''error'' = None"
  using assms
  by (simp add: telegram_job_def telegram_pipeline_def run_status_of_def run_yolo_enrichment_def)

theorem missing_yolo_script_skips_witness:
  "\<exists>p. snd (telegram_job world_no_yolo) ! 3 =
         \<lparr>step = Enrich, step_input = Some [(''status'', ''success''), (''timestamp'', ''2024-01-01T00:00:00'')],
          step_outcome = Returns p\<rparr>
       \<and> fst (telegram_job world_no_yolo) = RunSuccess
       \<and> map_of p ''status'' = Some ''skipped'' \<and> map_of p ''error'' = None"
proof -
  let ?p = "[(''status'', ''success''), (''timestamp'', ''2024-01-01T00:00:00'')]"
  have a: "\<not> path_exists world_no_yolo Enrich"
    by (simp add: world_no_yolo_def)
  have b: "scrape_telegram_data world_no_yolo = Returns ?p"
    by (simp add: world_no_yolo_def scrape_telegram_data_def)
  have c: "load_raw_to_postgres world_no_yolo ?p = Returns ?p"
    by (simp add: world_no_yolo_def load_raw_to_postgres_def)
  have d: "run_dbt_transformations world_no_yolo ?p = Returns ?p"
    by (simp add: world_no_yolo_def run_dbt_transformations_def)
  from missing_yolo_script_skips [OF a b c d] show ?thesis
    by auto
qed

section \<open>Order of the steps and the payload passed along\<close>

lemma telegram_pipeline_shapes:
  "(telegram_pipeline w =
      [\<lparr>step = Scrape, step_input = None, step_outcome = scrape_telegram_data w\<rparr>]
    \<and> (\<forall>p. scrape_telegram_data w \<noteq> Returns p))
   \<or> (\<exists>p1. scrape_telegram_data w = Returns p1
         \<and> telegram_pipeline w =
         [\<lparr>step = Scrape, step_input = None, step_outcome = Returns p1\<rparr>,
          \<lparr>step = Load, step_input = Some p1, step_outcome = load_raw_to_postgres w p1\<rparr>]
         \<and> (\<forall>p. load_raw_to_postgres w p1 \<noteq> Returns p))
   \<or> (\<exists>p1 p2. scrape_telegram_data w = Returns p1 \<and> load_raw_to_postgres w p1 = Returns p2
         \<and> telegram_pipeline w =
         [\<lparr>step = Scrape, step_input = None, step_outcome = Returns p1\<rparr>,
          \<lparr>step = Load, step_input = Some p1, step_outcome = Returns p2\<rparr>,
          \<lparr>step = Transform, step_input = Some p2,
            step_outcome = run_dbt_transformations w p2\<rparr>]
         \<and> (\<forall>p. run_dbt_transformations w p2 \<noteq> Returns p))
   \<or> (\<exists>p1 p2 p3. scrape_telegram_data w = Returns p1 \<and> load_raw_to_postgres w p1 = Returns p2
         \<and> run_dbt_transformations w p2 = Returns p3
         \<and> telegram_pipeline w =
         [\<lparr>step = Scrape, step_input = None, step_outcome = Returns p1\<rparr>,
          \<lparr>step = Load, step_input = Some p1, step_outcome = Returns p2\<rparr>,
          \<lparr>step = Transform, step_input = Some p2, step_outcome = Returns p3\<rparr>,
          \<lparr>step = Enrich, step_input = Some p3, step_outcome = run_yolo_enrichment w p3\<rparr>])"
  by (simp add: telegram_pipeline_def Let_def split: outcome.splits)

text \<open>
  C6. The steps on the record of a run are an initial segment of scrape, load, transform,
  enrich, in this order, and every step but the first received the payload that the step
  before it returned. Each step on record is the run of its op: the first is what
  \<open>scrape_telegram_data\<close> did, the load step is \<open>load_raw_to_postgres\<close> on the payload the
  scrape op returned, the transform step is \<open>run_dbt_transformations\<close> on the payload the
  load op returned, the enrich step is \<open>run_yolo_enrichment\<close> on the payload the transform
  op returned; and a step is on record exactly when the op before it returned.
\<close>

theorem steps_in_order_and_chained:
  "map step (snd (telegram_job w)) =
     take (length (snd (telegram_job w))) [Scrape, Load, Transform, Enrich]
   \<and> snd (telegram_job w) \<noteq> []
   \<and> (\<forall>i. 0 < i \<and> i < length (snd (telegram_job w)) \<longrightarrow>
         (\<exists>p. step_outcome (snd (telegram_job w) ! (i - 1)) = Returns p
              \<and> step_input (snd (telegram_job w) ! i) = Some p))
   \<and> step_input (snd (telegram_job w) ! 0) = None
   \<and> step_outcome (snd (telegram_job w) ! 0) = scrape_telegram_data w
   \<and> (1 < length (snd (telegram_job w)) \<longleftrightarrow> (\<exists>p. scrape_telegram_data w = Returns p))
   \<and> (\<forall>p1. scrape_telegram_data w = Returns p1 \<longrightarrow>
         step_input (snd (telegram_job w) ! 1) = Some p1
         \<and> step_outcome (snd (telegram_job w) ! 1) = load_raw_to_postgres w p1
         \<and> (2 < length (snd (telegram_job w)) \<longleftrightarrow> (\<exists>p. load_raw_to_postgres w p1 = Returns p))
         \<and> (\<forall>p2. load_raw_to_postgres w p1 = Returns p2 \<longrightarrow>
               step_input (snd (telegram_job w) ! 2) = Some p2
               \<and> step_outcome (snd (telegram_job w) ! 2) = run_dbt_transformations w p2
               \<and> (3 < length (snd (telegram_job w)) \<longleftrightarrow>
                    (\<exists>p. run_dbt_transformations w p2 = Returns p))
               \<and> (\<forall>p3. run_dbt_transformations w p2 = Returns p3 \<longrightarrow>
                     step_input (snd (telegram_job w) ! 3) = Some p3
                     \<and> step_outcome (snd (telegram_job w) ! 3) = run_yolo_enrichment w p3
                     \<and> length (snd (telegram_job w)) = 4)))"
proof -
  have evs: "snd (telegram_job w) = telegram_pipeline w"
    by (simp add: telegram_job_def Let_def)
  from telegram_pipeline_shapes [of w] show ?thesis
  proof (elim disjE exE conjE)
    assume "telegram_pipeline w =
         [\<lparr>step = Scrape, step_input = None, step_outcome = scrape_telegram_data w\<rparr>]"
      and "\<forall>p. scrape_telegram_data w \<noteq> Returns p"
    then show ?thesis by (auto simp: evs)
  next
    fix p1 assume "scrape_telegram_data w = Returns p1"
      and "telegram_pipeline w =
         [\<lparr>step = Scrape, step_input = None, step_outcome = Returns p1\<rparr>,
          \<lparr>step = Load, step_input = Some p1, step_outcome = load_raw_to_postgres w p1\<rparr>]"
      and "\<forall>p. load_raw_to_postgres w p1 \<noteq> Returns p"
    then show ?thesis by (auto simp: evs less_Suc_eq)
  next
    fix p1 p2 assume "scrape_telegram_data w = Returns p1" "load_raw_to_postgres w p1 = Returns p2"
      and "telegram_pipeline w =
         [\<lparr>step = Scrape, step_input = None, step_outcome = Returns p1\<rparr>,
          \<lparr>step = Load, step_input = Some p1, step_outcome = Returns p2\<rparr>,
          \<lparr>step = Transform, step_input = Some p2,
            step_outcome = run_dbt_transformations w p2\<rparr>]"
      and "\<forall>p. run_dbt_transformations w p2 \<noteq> Returns p"
    then show ?thesis by (auto simp: evs less_Suc_eq)
  next
    fix p1 p2 p3 assume "scrape_telegram_data w = Returns p1" "load_raw_to_postgres w p1 = Returns p2"
      "run_dbt_transformations w p2 = Returns p3"
      and "telegram_pipeline w =
         [\<lparr>step = Scrape, step_input = None, step_outcome = Returns p1\<rparr>,
          \<lparr>step = Load, step_input = Some p1, step_outcome = Returns p2\<rparr>,
          \<lparr>step = Transform, step_input = Some p2, step_outcome = Returns p3\<rparr>,
          \<lparr>step = Enrich, step_input = Some p3, step_outcome = run_yolo_enrichment w p3\<rparr>]"
    then show ?thesis by (auto simp: evs less_Suc_eq)
  qed
qed

theorem steps_in_order_and_chained_witness:
  "map step (snd (telegram_job world_no_yolo)) = [Scrape, Load, Transform, Enrich]
   \<and> (\<exists>p. step_outcome (snd (telegram_job world_no_yolo) ! 2) = Returns p
          \<and> step_input (snd (telegram_job world_no_yolo) ! 3) = Some p)
   \<and> scrape_telegram_data world_no_yolo =
       Returns [(''status'', ''success''), (''timestamp'', ''2024-01-01T00:00:00'')]
   \<and> step_outcome (snd (telegram_job world_no_yolo) ! 1) =
       load_raw_to_postgres world_no_yolo
         [(''status'', ''success''), (''timestamp'', ''2024-01-01T00:00:00'')]
   \<and> step_outcome (snd (telegram_job world_no_yolo) ! 3) =
       run_yolo_enrichment world_no_yolo
         [(''status'', ''success''), (''timestamp'', ''2024-01-01T00:00:00'')]"
proof -
  let ?p = "[(''status'', ''success''), (''timestamp'', ''2024-01-01T00:00:00'')]"
  have b: "scrape_telegram_data world_no_yolo = Returns ?p"
    by (simp add: world_no_yolo_def scrape_telegram_data_def)
  have c: "load_raw_to_postgres world_no_yolo ?p = Returns ?p"
    by (simp add: world_no_yolo_def load_raw_to_postgres_def)
  have d: "run_dbt_transformations world_no_yolo ?p = Returns ?p"
    by (simp add: world_no_yolo_def run_dbt_transformations_def)
  note t = steps_in_order_and_chained [of world_no_yolo]
  from t b c d have len: "length (snd (telegram_job world_no_yolo)) = 4"
    by blast
  from t b have l1: "step_outcome (snd (telegram_job world_no_yolo) ! 1) =
       load_raw_to_postgres world_no_yolo ?p"
    by blast
  from t b c d have l3: "step_outcome (snd (telegram_job world_no_yolo) ! 3) =
       run_yolo_enrichment world_no_yolo ?p"
    by blast
  from t
  have m: "map step (snd (telegram_job world_no_yolo)) = take 4 [Scrape, Load, Transform, Enrich]"
    and ch: "\<forall>i. 0 < i \<and> i < 4 \<longrightarrow>
         (\<exists>p. step_outcome (snd (telegram_job world_no_yolo) ! (i - 1)) = Returns p
              \<and> step_input (snd (telegram_job world_no_yolo) ! i) = Some p)"
    unfolding len by blast+
  from ch have "\<exists>p. step_outcome (snd (telegram_job world_no_yolo) ! (3 - 1)) = Returns p
              \<and> step_input (snd (telegram_job world_no_yolo) ! 3) = Some p"
    by (rule allE [where x = 3]) simp
  with m b l1 l3 show ?thesis by simp
qed

section \<open>The activity endpoint\<close>

text \<open>
  C7. A channel name that is not a key of \<open>channel_map\<close> is answered with status 404 and
  the detail \<open>Channel not found\<close>. No response of the two database endpoints depends on
  the traceback of the exception the database raised: the activity endpoint answers a
  failed query with the framework's plain 500, the search endpoint with a 500 whose
  detail is built from \<^verbatim>\<open>str(e)\<close> alone.
\<close>

theorem unknown_channel_404:
  "(channel_map channel_name = None \<longrightarrow>
      respond (get_activity channel_name db) =
        \<lparr>status_code = 404, body = Detail ''Channel not found''\<rparr>)
   \<and> respond (get_activity channel_name (db\<lparr>execute_error := Some \<lparr>exc_str = m, exc_traceback = t1\<rparr>\<rparr>)) =
     respond (get_activity channel_name (db\<lparr>execute_error := Some \<lparr>exc_str = m, exc_traceback = t2\<rparr>\<rparr>))
   \<and> respond (search_messages (db\<lparr>execute_error := Some \<lparr>exc_str = m, exc_traceback = t1\<rparr>\<rparr>) q limit offset) =
     respond (search_messages (db\<lparr>execute_error := Some \<lparr>exc_str = m, exc_traceback = t2\<rparr>\<rparr>) q limit offset)"
  by (simp add: get_activity_def get_channel_activity_def search_messages_def get_messages_def
      split: option.splits)

theorem unknown_channel_404_witness:
  "channel_map ''unknown_channel'' = None
   \<and> respond (get_activity ''unknown_channel'' db_twelve_days) =
        \<lparr>status_code = 404, body = Detail ''Channel not found''\<rparr>"
proof -
  have h: "channel_map ''unknown_channel'' = None"
    by (simp add: channel_map_def)
  with unknown_channel_404 [of "''unknown_channel''" db_twelve_days] show ?thesis
    by blast
qed



lemma get_channel_activity_length:
  "get_channel_activity db channel = Inr rows \<Longrightarrow> length rows \<le> 10"
  by (auto simp: get_channel_activity_def Let_def split: option.splits)

text \<open>
  C8. For a known channel, a successful answer of the activity endpoint has at most ten
  entries, however many days of activity the channel has: the query ends with
  \<^verbatim>\<open>limit 10\<close>.
\<close>

theorem activity_at_most_ten:
  assumes "channel_map channel_name \<noteq> None"
    and "get_activity channel_name db = Inr rows"
  shows "length rows \<le> 10"
  using assms
  by (auto simp: get_activity_def split: option.splits if_splits sum.splits
      dest: get_channel_activity_length)

lemma twelve_days_activity:
  "get_activity ''CheMed123'' db_twelve_days =
     Inr (map (\<lambda>d. \<lparr>date = Some d, message_count = 1\<rparr>) [0, 1, 2, 3, 4, 5, 6, 7, 8, 9])"
  by (simp add: get_activity_def channel_map_def get_channel_activity_def db_twelve_days_def
      Let_def DATE_def sort_by_def valid_activity_def)

theorem activity_at_most_ten_witness:
  "channel_map ''CheMed123'' \<noteq> None
   \<and> get_activity ''CheMed123'' db_twelve_days =
       Inr (map (\<lambda>d. \<lparr>date = Some d, message_count = 1\<rparr>) [0, 1, 2, 3, 4, 5, 6, 7, 8, 9])
   \<and> length (map (\<lambda>d. \<lparr>date = Some d, message_count = 1\<rparr>) [0, 1, 2, 3, 4, 5, 6, 7, 8, 9 :: int]) \<le> 10"
proof -
  have a: "channel_map ''CheMed123'' \<noteq> None"
    by (simp add: channel_map_def)
  from activity_at_most_ten [OF a twelve_days_activity] a twelve_days_activity
  show ?thesis by blast
qed

text \<open>
  C10. The keys of \<open>channel_map\<close> are exactly the three hardcoded names. For these the
  endpoint runs the activity query with the mapped identifier and answers from its result;
  for every other name it fails with 404.
\<close>

theorem activity_accepts_exactly_three:
  "dom channel_map = {''lobelia4cosmetics'', ''CheMed123'', ''tikvahpharma''}
   \<and> get_activity channel_name db =
     (if channel_name \<in> {''lobelia4cosmetics'', ''CheMed123'', ''tikvahpharma''}
      then (case get_channel_activity db (the (channel_map channel_name)) of
              Inl e \<Rightarrow> Inl (DBException e)
            | Inr rows \<Rightarrow> if valid_activity rows then Inr rows else Inl ResponseValidationError)
      else Inl (HTTPException 404 ''Channel not found''))"
  by (auto simp: get_activity_def channel_map_def dom_def)

theorem activity_accepts_exactly_three_witness:
  "get_activity ''CheMed123'' db_twelve_days =
     Inr (map (\<lambda>d. \<lparr>date = Some d, message_count = 1\<rparr>) [0, 1, 2, 3, 4, 5, 6, 7, 8, 9])
   \<and> get_activity ''13d619c52e5db90ef6a786b69ba3c978'' db_twelve_days =
       Inl (HTTPException 404 ''Channel not found'')"
proof -
  have q: "get_channel_activity db_twelve_days ''13d619c52e5db90ef6a786b69ba3c978'' =
             Inr (map (\<lambda>d. \<lparr>date = Some d, message_count = 1\<rparr>) [0, 1, 2, 3, 4, 5, 6, 7, 8, 9])"
    by (simp add: get_channel_activity_def db_twelve_days_def Let_def DATE_def sort_by_def)
  have m: "channel_map ''CheMed123'' = Some ''13d619c52e5db90ef6a786b69ba3c978''"
    by (simp add: channel_map_def)
  from activity_accepts_exactly_three [of "''CheMed123''" db_twelve_days] q m
  have 1: "get_activity ''CheMed123'' db_twelve_days =
     Inr (map (\<lambda>d. \<lparr>date = Some d, message_count = 1\<rparr>) [0, 1, 2, 3, 4, 5, 6, 7, 8, 9])"
    by (simp add: valid_activity_def)
  from activity_accepts_exactly_three [of "''13d619c52e5db90ef6a786b69ba3c978''" db_twelve_days]
  have 2: "get_activity ''13d619c52e5db90ef6a786b69ba3c978'' db_twelve_days =
       Inl (HTTPException 404 ''Channel not found'')"
    by simp
  from 1 2 show ?thesis by simp
qed

section \<open>The search endpoint\<close>










subsection \<open>What the search query matches\<close>

text \<open>
  C9. The query string is put between two \<open>%\<close> and used as an ILIKE pattern as it is:
  a \<open>_\<close> in the query stands for any character. The query \<open>a_c\<close> matches the message
  text \<open>abc\<close>, which does not contain \<open>a_c\<close> in any letter case.
\<close>

theorem wildcard_query_matches_without_containment:
  "matches ''a_c'' abc_message
   \<and> message_text abc_message = Some ''abc''
   \<and> \<not> sublist (map to_lower ''a_c'') (map to_lower ''abc'')"
proof -
  have "matches ''a_c'' abc_message"
    by (simp add: matches_def abc_message_def ILIKE_def search_pattern_def to_lower_def)
  moreover have "\<not> sublist (map to_lower ''a_c'') (map to_lower ''abc'')"
    by (simp add: to_lower_def sublist_Cons_right)
  ultimately show ?thesis by (simp add: abc_message_def)
qed

text \<open>
  For a query without \<open>%\<close>, \<open>_\<close> and backslash the match is containment up to the
  case of the ASCII letters, and queries that differ in letter case only match the same
  messages.
\<close>

lemma like_match_AnySeq_nil [simp]: "like_match [AnySeq] s"
  by (induction s) simp_all

lemma like_match_lits_prefix: "like_match (map Lit q @ [AnySeq]) s \<longleftrightarrow> prefix q s"
proof (induction q arbitrary: s)
  case Nil
  then show ?case by simp
next
  case (Cons c q)
  then show ?case by (cases s) auto
qed

lemma like_match_AnySeq: "like_match (AnySeq # ps) s \<longleftrightarrow> (\<exists>u v. s = u @ v \<and> like_match ps v)"
proof (induction s)
  case Nil
  then show ?case by simp
next
  case (Cons x xs)
  show ?case
  proof
    assume "like_match (AnySeq # ps) (x # xs)"
    then consider "like_match ps (x # xs)" | "like_match (AnySeq # ps) xs" by auto
    then show "\<exists>u v. x # xs = u @ v \<and> like_match ps v"
    proof cases
      case 1
      then have "x # xs = [] @ (x # xs) \<and> like_match ps (x # xs)" by simp
      then show ?thesis by blast
    next
      case 2
      with Cons obtain u v where "xs = u @ v" "like_match ps v" by blast
      then have "x # xs = (x # u) @ v \<and> like_match ps v" by simp
      then show ?thesis by blast
    qed
  next
    assume "\<exists>u v. x # xs = u @ v \<and> like_match ps v"
    then obtain u v where uv: "x # xs = u @ v" "like_match ps v" by blast
    show "like_match (AnySeq # ps) (x # xs)"
    proof (cases u)
      case Nil
      with uv have "like_match ps (x # xs)" by simp
      then show ?thesis by simp
    next
      case (Cons a u')
      with uv have "xs = u' @ v" by simp
      with uv(2) Cons.IH have "like_match (AnySeq # ps) xs" by blast
      then show ?thesis by simp
    qed
  qed
qed

lemma like_match_contains:
  "like_match (AnySeq # map Lit q @ [AnySeq]) s \<longleftrightarrow> sublist q s"
  by (auto simp: like_match_AnySeq like_match_lits_prefix sublist_def prefix_def)

lemma like_tokens_plain:
  "plain_query q \<Longrightarrow> like_tokens (q @ r) = map_option ((@) (map Lit q)) (like_tokens r)"
proof (induction q)
  case Nil
  then show ?case by (simp add: option.map_ident)
next
  case (Cons c q)
  then show ?case by (auto simp: plain_query_def option.map_comp comp_def)
qed

lemma to_lower_special:
  "to_lower c = CHR ''%'' \<longleftrightarrow> c = CHR ''%''"
  "to_lower c = CHR ''_'' \<longleftrightarrow> c = CHR ''_''"
  "to_lower c = CHR 0x5C \<longleftrightarrow> c = CHR 0x5C"
  "CHR ''%'' = to_lower c \<longleftrightarrow> c = CHR ''%''"
  "CHR ''_'' = to_lower c \<longleftrightarrow> c = CHR ''_''"
  "CHR 0x5C = to_lower c \<longleftrightarrow> c = CHR 0x5C"
  by (auto simp: to_lower_def split: if_splits)

lemma to_lower_fixed:
  "to_lower CHR ''%'' = CHR ''%''" "to_lower CHR ''_'' = CHR ''_''" "to_lower CHR 0x5C = CHR 0x5C"
  by (simp_all add: to_lower_def)

lemma plain_query_lower: "plain_query q \<Longrightarrow> plain_query (map to_lower q)"
  by (auto simp: plain_query_def to_lower_special to_lower_fixed)

lemma ILIKE_plain:
  assumes "plain_query q"
  shows "ILIKE s (search_pattern q) = Some (sublist (map to_lower q) (map to_lower s))"
proof -
  have pat: "map to_lower (search_pattern q) = CHR ''%'' # (map to_lower q @ ''%'')"
    by (simp add: search_pattern_def to_lower_def)
  have "like_tokens (map to_lower q @ ''%'') = Some (map Lit (map to_lower q) @ [AnySeq])"
    using like_tokens_plain [OF plain_query_lower [OF assms], of "''%''"] by simp
  then have "like_tokens (map to_lower (search_pattern q)) =
               Some (AnySeq # map Lit (map to_lower q) @ [AnySeq])"
    by (simp add: pat)
  with like_match_contains [of "map to_lower q" "map to_lower s"] show ?thesis
    by (simp add: ILIKE_def)
qed

lemma matches_plain:
  "plain_query q \<Longrightarrow>
     matches q m \<longleftrightarrow> (\<exists>s. message_text m = Some s \<and> sublist (map to_lower q) (map to_lower s))"
  by (simp add: matches_def ILIKE_plain split: option.splits)

lemma matches_case_insensitive:
  "map to_lower q1 = map to_lower q2 \<Longrightarrow> matches q1 m = matches q2 m"
  by (simp add: matches_def ILIKE_def search_pattern_def split: option.splits)


section \<open>Retrying the connection\<close>

lemma upt3: "[0..<3] = [0, 1, 2]"
  by (simp add: upt_rec)

text \<open>
  C4 (as the code has it). Unless the service is already connected, \<open>connect\<close> makes at
  most three attempts. When an attempt fails with a retryable error (one that
  \<^verbatim>\<open>except Exception\<close> catches, a transient network error among them), \<open>connect\<close> sleeps
  exactly \<open>5 * 2 ^ n\<close> seconds after the failed attempt \<open>n\<close> (5, then 10) and tries again;
  nothing is added to the delay, and it never exceeds 10 seconds. When the first two
  attempts failed so and the third attempt raises, its exception is raised to the caller
  after the two sleeps, with the service not connected.
\<close>

theorem connect_retries_with_doubling_delay:
  assumes "\<not> (is_connected st \<and> client_connected_on_entry env)"
  shows "(\<not> raises (attempt_outcome_at env 0) \<longrightarrow>
            fst (connect env st) = Returns () \<and> slept (snd (connect env st)) = slept st)
       \<and> (retryable (attempt_outcome_at env 0) \<and> \<not> raises (attempt_outcome_at env 1) \<longrightarrow>
            fst (connect env st) = Returns ()
            \<and> slept (snd (connect env st)) = slept st @ [5 * 2 ^ 0])
       \<and> (retryable (attempt_outcome_at env 0) \<and> retryable (attempt_outcome_at env 1)
            \<and> \<not> raises (attempt_outcome_at env 2) \<longrightarrow>
            fst (connect env st) = Returns ()
            \<and> slept (snd (connect env st)) = slept st @ [5 * 2 ^ 0, 5 * 2 ^ 1])
       \<and> (retryable (attempt_outcome_at env 0) \<and> retryable (attempt_outcome_at env 1)
            \<and> attempt_outcome_at env 2 = AttemptRaises e \<longrightarrow>
            fst (connect env st) = Raised e
            \<and> slept (snd (connect env st)) = slept st @ [5 * 2 ^ 0, 5 * 2 ^ 1]
            \<and> \<not> is_connected (snd (connect env st)))"
proof -
  have c: "connect env st = connect_loop env 3 [0, 1, 2] (st\<lparr>retry_delay := 5\<rparr>)"
    using assms by (auto simp: connect_def Let_def upt3)
  show ?thesis
    unfolding c
    by (cases "attempt_outcome_at env 0"; cases "attempt_outcome_at env 1";
        cases "attempt_outcome_at env 2") (simp_all add: Let_def)
qed

text \<open>
  The claim as stated fails: against a platform that refuses every attempt with a
  connection error, the delays are 5 and 10 seconds exactly, with no jitter.
\<close>

theorem connect_no_jitter_counterexample:
  "connect env_refused fresh_service =
     (Raised (ConnectionError ''refused''),
      \<lparr>is_connected = False, retry_delay = 20, slept = [5, 10]\<rparr>)"
  by (simp add: connect_def env_refused_def fresh_service_def Let_def upt3)

theorem connect_retries_with_doubling_delay_witness:
  "\<not> (is_connected fresh_service \<and> client_connected_on_entry env_refused)
   \<and> retryable (attempt_outcome_at env_refused 0) \<and> retryable (attempt_outcome_at env_refused 1)
   \<and> attempt_outcome_at env_refused 2 = AttemptRaises (ConnectionError ''refused'')
   \<and> fst (connect env_refused fresh_service) = Raised (ConnectionError ''refused'')
   \<and> slept (snd (connect env_refused fresh_service)) = [5, 10]
   \<and> retryable (attempt_outcome_at env_second_try 0) \<and> \<not> raises (attempt_outcome_at env_second_try 1)
   \<and> fst (connect env_second_try fresh_service) = Returns ()
   \<and> slept (snd (connect env_second_try fresh_service)) = [5]"
proof -
  have a: "\<not> (is_connected fresh_service \<and> client_connected_on_entry env_refused)"
    by (simp add: fresh_service_def)
  have b: "\<not> (is_connected fresh_service \<and> client_connected_on_entry env_second_try)"
    by (simp add: fresh_service_def)
  have r: "retryable (attempt_outcome_at env_refused 0)" "retryable (attempt_outcome_at env_refused 1)"
    "attempt_outcome_at env_refused 2 = AttemptRaises (ConnectionError ''refused'')"
    by (simp_all add: env_refused_def)
  have s: "retryable (attempt_outcome_at env_second_try 0)"
    "\<not> raises (attempt_outcome_at env_second_try 1)"
    by (simp_all add: env_second_try_def)
  from connect_retries_with_doubling_delay [OF a, of "ConnectionError ''refused''"] r
  have 1: "fst (connect env_refused fresh_service) = Raised (ConnectionError ''refused'')"
    "slept (snd (connect env_refused fresh_service)) = [5, 10]"
    by (simp_all add: fresh_service_def)
  from connect_retries_with_doubling_delay [OF b] s
  have 2: "fst (connect env_second_try fresh_service) = Returns ()"
    "slept (snd (connect env_second_try fresh_service)) = [5]"
    by (simp_all add: fresh_service_def)
  from a r s 1 2 show ?thesis by simp
qed

text \<open>
  An exception that \<^verbatim>\<open>except Exception\<close> does not catch is not retried: a cancelled first
  attempt leaves \<open>connect\<close> at once, with no sleep and the flag as it was.
\<close>

lemma connect_uncaught_exception_propagates:
  assumes "\<not> (is_connected st \<and> client_connected_on_entry env)"
    and "attempt_outcome_at env 0 = AttemptRaises e" and "\<not> is_Exception e"
  shows "connect env st = (Raised e, st\<lparr>retry_delay := 5\<rparr>)"
  using assms by (auto simp: connect_def Let_def upt3)

lemma connect_cancelled:
  "connect env_cancelled fresh_service =
     (Raised CancelledError, \<lparr>is_connected = False, retry_delay = 5, slept = []\<rparr>)"
  by (simp add: connect_def env_cancelled_def fresh_service_def Let_def upt3)

end
